theory Spec2Isabelle
  imports Complex_Main "HOL-Library.Multiset"
begin

section \<open>JavaScript numbers\<close>

text \<open>
  The engine in \<^verbatim>\<open>src/lib/agent\<close> computes with JavaScript numbers. A number is
  modelled as a finite value, one of the two infinities, or NaN. Finite values are exact
  reals: the rounding of IEEE doubles is not modelled, and the two zeros are one value
  (a zero divisor counts as \<open>+0\<close>). The theorems below that speak about all inputs rest
  on comparisons, on truthiness and on the order in which the code applies its operations,
  not on the value of an inexact product or quotient; the runs on concrete inputs stay on
  values (small integers, NaN, the infinities) that rounding does not move.
\<close>

datatype jsnum = Num real | PosInf | NegInf | NaN

fun js_neg :: "jsnum \<Rightarrow> jsnum" where
  "js_neg (Num x) = Num (- x)"
| "js_neg PosInf = NegInf"
| "js_neg NegInf = PosInf"
| "js_neg NaN = NaN"

fun js_add :: "jsnum \<Rightarrow> jsnum \<Rightarrow> jsnum" where
  "js_add (Num a) (Num b) = Num (a + b)"
| "js_add (Num a) PosInf = PosInf"
| "js_add (Num a) NegInf = NegInf"
| "js_add PosInf (Num b) = PosInf"
| "js_add PosInf PosInf = PosInf"
| "js_add PosInf NegInf = NaN"
| "js_add NegInf (Num b) = NegInf"
| "js_add NegInf PosInf = NaN"
| "js_add NegInf NegInf = NegInf"
| "js_add NaN b = NaN"
| "js_add a NaN = NaN"

definition js_sub :: "jsnum \<Rightarrow> jsnum \<Rightarrow> jsnum" where
  "js_sub a b = js_add a (js_neg b)"

text \<open>An infinity with the sign of a finite factor; \<open>0 * Infinity\<close> is NaN.\<close>

definition signed_inf :: "real \<Rightarrow> jsnum" where
  "signed_inf a = (if a = 0 then NaN else if 0 < a then PosInf else NegInf)"

fun js_mul :: "jsnum \<Rightarrow> jsnum \<Rightarrow> jsnum" where
  "js_mul (Num a) (Num b) = Num (a * b)"
| "js_mul (Num a) PosInf = signed_inf a"
| "js_mul (Num a) NegInf = signed_inf (- a)"
| "js_mul PosInf (Num b) = signed_inf b"
| "js_mul PosInf PosInf = PosInf"
| "js_mul PosInf NegInf = NegInf"
| "js_mul NegInf (Num b) = signed_inf (- b)"
| "js_mul NegInf PosInf = NegInf"
| "js_mul NegInf NegInf = PosInf"
| "js_mul NaN b = NaN"
| "js_mul a NaN = NaN"

fun js_div :: "jsnum \<Rightarrow> jsnum \<Rightarrow> jsnum" where
  "js_div (Num a) (Num b) = (if b = 0 then signed_inf a else Num (a / b))"
| "js_div (Num a) PosInf = Num 0"
| "js_div (Num a) NegInf = Num 0"
| "js_div PosInf (Num b) = (if 0 \<le> b then PosInf else NegInf)"
| "js_div NegInf (Num b) = (if 0 \<le> b then NegInf else PosInf)"
| "js_div PosInf PosInf = NaN"
| "js_div PosInf NegInf = NaN"
| "js_div NegInf PosInf = NaN"
| "js_div NegInf NegInf = NaN"
| "js_div NaN b = NaN"
| "js_div a NaN = NaN"

text \<open>\<open>a < b\<close>; every comparison with NaN is false.\<close>

fun js_lt :: "jsnum \<Rightarrow> jsnum \<Rightarrow> bool" where
  "js_lt (Num a) (Num b) = (a < b)"
| "js_lt (Num a) PosInf = True"
| "js_lt NegInf (Num b) = True"
| "js_lt NegInf PosInf = True"
| "js_lt a b = False"

definition js_gt :: "jsnum \<Rightarrow> jsnum \<Rightarrow> bool" where
  "js_gt a b = js_lt b a"

text \<open>\<open>Math.min\<close> and \<open>Math.max\<close> of two arguments: NaN if either is NaN.\<close>

definition Math_min :: "jsnum \<Rightarrow> jsnum \<Rightarrow> jsnum" where
  "Math_min a b = (if a = NaN \<or> b = NaN then NaN else if js_lt b a then b else a)"

definition Math_max :: "jsnum \<Rightarrow> jsnum \<Rightarrow> jsnum" where
  "Math_max a b = (if a = NaN \<or> b = NaN then NaN else if js_lt a b then b else a)"

text \<open>\<open>Math.round\<close> rounds half up; \<open>Math.floor\<close>; both keep NaN and the infinities.\<close>

fun Math_round :: "jsnum \<Rightarrow> jsnum" where
  "Math_round (Num x) = Num (of_int \<lfloor>x + 1 / 2\<rfloor>)"
| "Math_round a = a"

fun Math_floor :: "jsnum \<Rightarrow> jsnum" where
  "Math_floor (Num x) = Num (of_int \<lfloor>x\<rfloor>)"
| "Math_floor a = a"

fun Math_sqrt :: "jsnum \<Rightarrow> jsnum" where
  "Math_sqrt (Num x) = (if x < 0 then NaN else Num (sqrt x))"
| "Math_sqrt PosInf = PosInf"
| "Math_sqrt NegInf = NaN"
| "Math_sqrt NaN = NaN"

text \<open>Truthiness of a number: \<open>0\<close> and NaN are falsy.\<close>

fun truthy :: "jsnum \<Rightarrow> bool" where
  "truthy (Num x) = (x \<noteq> 0)"
| "truthy NaN = False"
| "truthy a = True"

text \<open>
  A field of type \<^verbatim>\<open>number | null\<close> is a \<open>jsnum option\<close>. \<open>or_zero v\<close> is
  \<^verbatim>\<open>v || 0\<close>, and \<open>truthy_opt v\<close> is the truthiness of \<^verbatim>\<open>v\<close>.
\<close>

fun truthy_opt :: "jsnum option \<Rightarrow> bool" where
  "truthy_opt None = False"
| "truthy_opt (Some v) = truthy v"

fun or_zero :: "jsnum option \<Rightarrow> jsnum" where
  "or_zero None = Num 0"
| "or_zero (Some v) = (if truthy v then v else Num 0)"

section \<open>What-if simulation engine\<close>

text \<open>
  The station rows and the changes of \<^verbatim>\<open>SimulationInput\<close>. Field names carry a
  prefix where two records of the source share a name.
\<close>

record SimStation =
  s_id :: string
  s_name :: string
  s_targetCycleTime :: jsnum
  s_avgCycleTime :: jsnum
  s_operatorCount :: jsnum

datatype change_type =
  add_operator | remove_operator | change_cycle_time | add_station | remove_station

record SimulationChange =
  c_type :: change_type
  c_stationId :: string
  c_value :: jsnum
  c_description :: string

record SimulationInput =
  stations :: "SimStation list"
  changes :: "SimulationChange list"

record SimulationResult =
  throughputPerHour :: jsnum
  avgCycleTime :: jsnum
  lineEfficiency :: jsnum
  bottleneckStation :: "string option"
  waitTimeTotal :: jsnum
  utilizationByStation :: "string \<rightharpoonup> jsnum"

text \<open>
  The body of the \<^verbatim>\<open>switch\<close> in \<^verbatim>\<open>runSimulation\<close>: \<open>station\<close> is the unmodified
  row, \<open>modified\<close> the working copy. The switch has no default branch: the two change
  types it does not name leave the copy as it is.
\<close>

definition improvement :: "jsnum \<Rightarrow> jsnum \<Rightarrow> jsnum" where
  "improvement v cnt =
     js_sub (Num 1) (js_mul (js_mul (Num (15 / 100)) v) (js_div (Num 1) (Math_sqrt cnt)))"

definition degradation :: "jsnum \<Rightarrow> jsnum" where
  "degradation v = js_add (Num 1) (js_mul (Num (2 / 10)) v)"

fun applyChange :: "SimStation \<Rightarrow> SimStation \<Rightarrow> SimulationChange \<Rightarrow> SimStation" where
  "applyChange station modified change =
     (case c_type change of
        add_operator \<Rightarrow>
          (let cnt = js_add (s_operatorCount modified) (c_value change)
           in modified\<lparr>s_operatorCount := cnt,
                s_avgCycleTime := js_mul (s_avgCycleTime station) (improvement (c_value change) cnt)\<rparr>)
      | remove_operator \<Rightarrow>
          modified\<lparr>s_operatorCount :=
                Math_max (Num 1) (js_sub (s_operatorCount modified) (c_value change)),
              s_avgCycleTime := js_mul (s_avgCycleTime station) (degradation (c_value change))\<rparr>
      | change_cycle_time \<Rightarrow> modified\<lparr>s_avgCycleTime := c_value change\<rparr>
      | add_station \<Rightarrow> modified
      | remove_station \<Rightarrow> modified)"

definition stationChanges :: "SimulationChange list \<Rightarrow> SimStation \<Rightarrow> SimulationChange list" where
  "stationChanges cs station = filter (\<lambda>c. c_stationId c = s_id station) cs"

definition modifyStation :: "SimulationChange list \<Rightarrow> SimStation \<Rightarrow> SimStation" where
  "modifyStation cs station = foldl (applyChange station) station (stationChanges cs station)"

definition modifiedStations :: "SimulationInput \<Rightarrow> SimStation list" where
  "modifiedStations input = map (modifyStation (changes input)) (stations input)"

text \<open>The first loop of \<^verbatim>\<open>calculateLineMetrics\<close>, on the pair
  \<open>(bottleneckStation, maxCycleTime)\<close>.\<close>

fun findBottleneck :: "SimStation list \<Rightarrow> string option \<times> jsnum \<Rightarrow> string option \<times> jsnum" where
  "findBottleneck [] bm = bm"
| "findBottleneck (s # rest) (b, m) =
     (if js_gt (s_avgCycleTime s) m
      then findBottleneck rest (Some (s_id s), s_avgCycleTime s)
      else findBottleneck rest (b, m))"

text \<open>The second loop, on the pair \<open>(utilizationByStation, waitTimeTotal)\<close>.\<close>

fun utilizationLoop ::
  "jsnum \<Rightarrow> SimStation list \<Rightarrow> (string \<rightharpoonup> jsnum) \<times> jsnum \<Rightarrow> (string \<rightharpoonup> jsnum) \<times> jsnum" where
  "utilizationLoop m [] uw = uw"
| "utilizationLoop m (s # rest) (u, w) =
     utilizationLoop m rest
       (u(s_id s \<mapsto> Math_min (Num 1) (js_div (s_avgCycleTime s) m)),
        js_add w (js_sub m (s_avgCycleTime s)))"

definition calculateLineMetrics :: "SimStation list \<Rightarrow> SimulationResult" where
  "calculateLineMetrics sts =
     (let (bottleneck, maxCycleTime) = findBottleneck sts (None, Num 0);
          throughput = Math_floor (js_div (Num 3600) maxCycleTime);
          n = Num (of_nat (length sts));
          avg = js_div (foldl (\<lambda>sum s. js_add sum (s_avgCycleTime s)) (Num 0) sts) n;
          (utilization, wait) = utilizationLoop maxCycleTime sts (Map.empty, Num 0);
          totalTargetTime = foldl (\<lambda>sum s. js_add sum (s_targetCycleTime s)) (Num 0) sts;
          efficiency = js_mul (js_div totalTargetTime (js_mul maxCycleTime n)) (Num 100)
      in \<lparr>throughputPerHour = throughput,
          avgCycleTime = js_div (Math_round (js_mul avg (Num 10))) (Num 10),
          lineEfficiency = js_div (Math_round (js_mul efficiency (Num 10))) (Num 10),
          bottleneckStation = bottleneck,
          waitTimeTotal = Math_round wait,
          utilizationByStation = utilization\<rparr>)"

text \<open>\<^verbatim>\<open>runSimulation\<close> returns the pair \<open>(baseline, projected)\<close>.\<close>

definition runSimulation :: "SimulationInput \<Rightarrow> SimulationResult \<times> SimulationResult" where
  "runSimulation input =
     (calculateLineMetrics (stations input), calculateLineMetrics (modifiedStations input))"

section \<open>Strings, objects and sorting\<close>

text \<open>
  \<^verbatim>\<open>s.replace(pat, rep)\<close> with a string pattern replaces the first occurrence of
  \<open>pat\<close> and leaves a string without one unchanged.
\<close>

fun replace_first :: "string \<Rightarrow> string \<Rightarrow> string \<Rightarrow> string" where
  "replace_first pat rep [] = (if pat = [] then rep else [])"
| "replace_first pat rep (c # cs) =
     (if take (length pat) (c # cs) = pat then rep @ drop (length pat) (c # cs)
      else c # replace_first pat rep cs)"

text \<open>
  \<^verbatim>\<open>parseInt(s)\<close> without a radix: leading white space is dropped, then an optional
  sign, then an optional \<^verbatim>\<open>0x\<close> prefix that selects radix 16; the longest run of digits
  is read, and no digit at all gives NaN. Strings are lists of 8-bit characters, so the
  white space is the part of JavaScript's below code 256.
\<close>

definition StrWhiteSpaceChar :: "char \<Rightarrow> bool" where
  "StrWhiteSpaceChar c =
     (c \<in> set [CHR 0x09, CHR 0x0A, CHR 0x0B, CHR 0x0C, CHR 0x0D, CHR 0x20, CHR 0xA0])"

definition digit :: "nat \<Rightarrow> char \<Rightarrow> nat option" where
  "digit radix c =
     (case map_of
        [(CHR ''0'', 0 :: nat), (CHR ''1'', 1), (CHR ''2'', 2), (CHR ''3'', 3), (CHR ''4'', 4),
         (CHR ''5'', 5), (CHR ''6'', 6), (CHR ''7'', 7), (CHR ''8'', 8), (CHR ''9'', 9),
         (CHR ''a'', 10), (CHR ''b'', 11), (CHR ''c'', 12), (CHR ''d'', 13), (CHR ''e'', 14),
         (CHR ''f'', 15), (CHR ''A'', 10), (CHR ''B'', 11), (CHR ''C'', 12), (CHR ''D'', 13),
         (CHR ''E'', 14), (CHR ''F'', 15)] c of
        None \<Rightarrow> None
      | Some d \<Rightarrow> if d < radix then Some d else None)"

fun parse_digits :: "nat \<Rightarrow> string \<Rightarrow> nat list" where
  "parse_digits radix [] = []"
| "parse_digits radix (c # cs) =
     (case digit radix c of None \<Rightarrow> [] | Some d \<Rightarrow> d # parse_digits radix cs)"

definition parseInt :: "string \<Rightarrow> jsnum" where
  "parseInt inputString =
     (let s = dropWhile StrWhiteSpaceChar inputString;
          negative = (take 1 s = ''-'');
          s1 = (if take 1 s = ''+'' \<or> take 1 s = ''-'' then drop 1 s else s);
          hex = (take 2 s1 = ''0x'' \<or> take 2 s1 = ''0X'');
          radix = (if hex then 16 else 10);
          ds = parse_digits radix (if hex then drop 2 s1 else s1);
          n = foldl (\<lambda>acc d. acc * radix + d) 0 ds
      in if ds = [] then NaN
         else Num (if negative then - of_nat n else of_nat n))"

text \<open>
  An object used as a dictionary (\<^verbatim>\<open>Record<string, number>\<close>) is the list of its own
  properties in creation order. Assigning to the key \<^verbatim>\<open>__proto__\<close> reaches the
  setter inherited from \<^verbatim>\<open>Object.prototype\<close>, which ignores a number: no property is
  created. \<^verbatim>\<open>Object.entries\<close> lists the keys that are array indices first, in
  ascending order, then the others in creation order.
\<close>

fun obj_set :: "(string \<times> 'v) list \<Rightarrow> string \<Rightarrow> 'v \<Rightarrow> (string \<times> 'v) list" where
  "obj_set [] k v = (if k = ''__proto__'' then [] else [(k, v)])"
| "obj_set ((k', v') # rest) k v =
     (if k' = k then (k, v) # rest else (k', v') # obj_set rest k v)"

definition index_value :: "string \<Rightarrow> nat" where
  "index_value k = foldl (\<lambda>acc d. acc * 10 + d) 0 (parse_digits 10 k)"

definition is_array_index :: "string \<Rightarrow> bool" where
  "is_array_index k =
     (k \<noteq> [] \<and> length (parse_digits 10 k) = length k \<and> (k = ''0'' \<or> take 1 k \<noteq> ''0'')
      \<and> index_value k \<le> 4294967294)"

definition Object_entries :: "(string \<times> 'v) list \<Rightarrow> (string \<times> 'v) list" where
  "Object_entries obj =
     sort_key (\<lambda>e. index_value (fst e)) (filter (\<lambda>e. is_array_index (fst e)) obj)
     @ filter (\<lambda>e. \<not> is_array_index (fst e)) obj"

text \<open>\<^verbatim>\<open>Math.max(...vs)\<close> and \<^verbatim>\<open>Math.min(...vs)\<close>; of no argument they are
  \<open>-Infinity\<close> and \<open>Infinity\<close>.\<close>

definition Math_max_list :: "jsnum list \<Rightarrow> jsnum" where
  "Math_max_list vs = foldl Math_max NegInf vs"

definition Math_min_list :: "jsnum list \<Rightarrow> jsnum" where
  "Math_min_list vs = foldl Math_min PosInf vs"

text \<open>
  \<^verbatim>\<open>xs.sort(cmp)\<close> is stable, and \<open>cmp x y > 0\<close> puts \<open>x\<close> after \<open>y\<close>; a NaN from
  the comparator counts as \<open>0\<close>. The sort is an insertion sort here. JavaScript leaves
  the order to the implementation when the comparator is not consistent (as with NaN
  keys); the theorems below read the sorted list as a multiset only.
\<close>

fun insert_by :: "('a \<Rightarrow> 'a \<Rightarrow> jsnum) \<Rightarrow> 'a \<Rightarrow> 'a list \<Rightarrow> 'a list" where
  "insert_by cmp x [] = [x]"
| "insert_by cmp x (y # ys) =
     (if js_gt (cmp x y) (Num 0) then y # insert_by cmp x ys else x # y # ys)"

definition js_sort :: "('a \<Rightarrow> 'a \<Rightarrow> jsnum) \<Rightarrow> 'a list \<Rightarrow> 'a list" where
  "js_sort cmp xs = foldr (insert_by cmp) xs []"

text \<open>
  A template literal that interpolates a number is kept as its pieces: the model does not
  render numbers as text.
\<close>

datatype piece = Lit string | Val jsnum

section \<open>Bottleneck detection agent\<close>

record StationData =
  station_id :: string
  station_name :: string
  target_cycle_time :: jsnum
  avg_cycle_time :: "jsnum option"
  stddev_cycle_time :: "jsnum option"
  sample_count :: jsnum
  total_downtime :: "jsnum option"
  variance_percent :: "jsnum option"

record ShiftData =
  shift :: string
  sh_station_id :: string
  sh_avg_cycle_time :: jsnum
  sh_sample_count :: jsnum

datatype severity = critical | high | medium | low

datatype cause_type =
  cause_operator | cause_equipment | cause_material | cause_process | cause_shift

record RootCause =
  rc_type :: cause_type
  rc_description :: "piece list"
  confidence :: jsnum
  evidence :: "piece list list"

datatype rec_type =
  rec_add_operator | rec_training | rec_equipment | rec_rebalance | rec_maintenance

datatype cost = cost_low | cost_medium | cost_high

record Recommendation =
  rec_id :: string
  rec_kind :: rec_type
  rec_description :: string
  expectedImprovement :: jsnum
  implementationCost :: cost
  timeToImplement :: string
  priority :: nat

record BottleneckAnalysis =
  stationId :: string
  stationName :: string
  severity :: severity
  b_avgCycleTime :: jsnum
  b_targetCycleTime :: jsnum
  variancePercent :: jsnum
  frequency :: jsnum
  impactScore :: jsnum
  rootCauses :: "RootCause list"
  recommendations :: "Recommendation list"

datatype error = TypeError

definition getSeverity :: "jsnum \<Rightarrow> severity" where
  "getSeverity v =
     (if js_gt v (Num 20) then critical
      else if js_gt v (Num 10) then high
      else if js_gt v (Num 5) then medium
      else low)"

text \<open>
  \<^verbatim>\<open>station.avg_cycle_time ? (stddev / station.avg_cycle_time) * 100 : 0\<close>, which
  \<^verbatim>\<open>calculateImpactScore\<close> and \<^verbatim>\<open>analyzeRootCauses\<close> both compute.
\<close>

definition coefficientOfVariation :: "StationData \<Rightarrow> jsnum" where
  "coefficientOfVariation station =
     (case avg_cycle_time station of
        None \<Rightarrow> Num 0
      | Some a \<Rightarrow>
          if truthy a then js_mul (js_div (or_zero (stddev_cycle_time station)) a) (Num 100)
          else Num 0)"

definition calculateImpactScore :: "StationData \<Rightarrow> StationData list \<Rightarrow> jsnum" where
  "calculateImpactScore station allStations =
     (let varianceScore = Math_min (Num 40) (js_mul (or_zero (variance_percent station)) (Num 2));
          consistencyScore = Math_min (Num 20) (coefficientOfVariation station);
          stationNumber = parseInt (replace_first ''ST'' [] (station_id station));
          positionScore = Math_max (Num 0) (js_sub (Num 20) (js_mul stationNumber (Num 2)));
          totalDowntime =
            foldl (\<lambda>sum s. js_add sum (or_zero (total_downtime s))) (Num 0) allStations;
          downtimeScore =
            (if js_gt totalDowntime (Num 0)
             then js_mul (js_div (or_zero (total_downtime station)) totalDowntime) (Num 20)
             else Num 0)
      in Math_round
           (js_add (js_add (js_add varianceScore consistencyScore) positionScore) downtimeScore))"

text \<open>
  The shift block of \<^verbatim>\<open>analyzeRootCauses\<close>: the causes it pushes (none or one).
  \<^verbatim>\<open>worstShift\<close> is element 0 of the sorted entries; on an empty array that is
  \<^verbatim>\<open>undefined\<close>, and reading \<^verbatim>\<open>worstShift[0]\<close> throws a TypeError.
\<close>

definition shiftPattern :: "StationData \<Rightarrow> ShiftData list \<Rightarrow> error + RootCause list" where
  "shiftPattern station shiftData =
     (let stationShifts = filter (\<lambda>s. sh_station_id s = station_id station) shiftData
      in if 1 < length stationShifts then
           (let avgByShift =
                  foldl (\<lambda>acc s. obj_set acc (shift s) (sh_avg_cycle_time s)) [] stationShifts;
                vals = map snd (Object_entries avgByShift);
                shiftVariance = js_sub (Math_max_list vals) (Math_min_list vals);
                shiftVariancePercent =
                  js_mul (js_div shiftVariance (target_cycle_time station)) (Num 100)
            in if js_gt shiftVariancePercent (Num 10) then
                 (case js_sort (\<lambda>a b. js_sub (snd b) (snd a)) (Object_entries avgByShift) of
                    [] \<Rightarrow> Inl TypeError
                  | worstShift # _ \<Rightarrow>
                      Inr [\<lparr>rc_type = cause_shift,
                            rc_description =
                              [Lit (fst worstShift), Lit '' shift shows '',
                               Val (Math_round shiftVariancePercent),
                               Lit ''% higher cycle times''],
                            confidence = Math_min (Num (9 / 10)) (js_div shiftVariancePercent (Num 20)),
                            evidence =
                              [[Lit (fst worstShift), Lit '' shift average: '',
                                Val (Math_round (snd worstShift)), Lit ''s''],
                               [Lit ''Target: '', Val (target_cycle_time station), Lit ''s'']]\<rparr>])
               else Inr [])
         else Inr [])"

definition analyzeRootCauses :: "StationData \<Rightarrow> ShiftData list \<Rightarrow> error + RootCause list" where
  "analyzeRootCauses station shiftData =
     (case shiftPattern station shiftData of
        Inl e \<Rightarrow> Inl e
      | Inr rc1 \<Rightarrow>
          (let stddev = or_zero (stddev_cycle_time station);
               cv = coefficientOfVariation station;
               rc2 =
                 (if js_gt cv (Num 15) then
                    rc1 @ [\<lparr>rc_type = cause_operator,
                            rc_description =
                              [Lit ''High cycle time variability suggests inconsistent operator performance''],
                            confidence = Math_min (Num (85 / 100)) (js_div cv (Num 25)),
                            evidence =
                              [[Lit ''Coefficient of variation: '', Val (Math_round cv), Lit ''%''],
                               [Lit ''Standard deviation: '', Val (Math_round stddev), Lit ''s'']]\<rparr>]
                  else rc1);
               rc3 =
                 (if js_gt (or_zero (variance_percent station)) (Num 15) \<and> js_lt cv (Num 10) then
                    rc2 @ [\<lparr>rc_type = cause_equipment,
                            rc_description =
                              [Lit ''Consistently slow performance suggests equipment limitations''],
                            confidence = Num (75 / 100),
                            evidence =
                              [[Lit ''Consistent '',
                                Val (Math_round (or_zero (variance_percent station))),
                                Lit ''% above target''],
                               [Lit ''Low variability indicates systematic issue'']]\<rparr>]
                  else rc2);
               rc4 =
                 (if js_gt (or_zero (total_downtime station)) (Num 60) then
                    rc3 @ [\<lparr>rc_type = cause_equipment,
                            rc_description =
                              [Lit ''Significant downtime indicates equipment reliability issues''],
                            confidence = Num (8 / 10),
                            evidence =
                              [[Lit ''Total downtime: '',
                                Val (Math_round (or_zero (total_downtime station))),
                                Lit '' minutes'']]\<rparr>]
                  else rc3)
           in Inr rc4))"

text \<open>
  One turn of the loop of \<^verbatim>\<open>generateRecommendations\<close>, on the pair
  \<open>(recommendations, priority)\<close>; the \<^verbatim>\<open>switch\<close> names three cause types and has no
  default branch.
\<close>

fun pushRecommendations ::
  "StationData \<Rightarrow> Recommendation list \<times> nat \<Rightarrow> RootCause \<Rightarrow> Recommendation list \<times> nat" where
  "pushRecommendations station (recs, p) cause =
     (case rc_type cause of
        cause_shift \<Rightarrow>
          (recs @ [\<lparr>rec_id = ''rec-'' @ station_id station @ ''-shift'',
                    rec_kind = rec_training,
                    rec_description =
                      ''Provide additional training for underperforming shift at ''
                      @ station_name station,
                    expectedImprovement = Math_round (js_mul (confidence cause) (Num 15)),
                    implementationCost = cost_low,
                    timeToImplement = ''1-2 weeks'',
                    priority = p\<rparr>],
           p + 1)
      | cause_operator \<Rightarrow>
          (recs @ [\<lparr>rec_id = ''rec-'' @ station_id station @ ''-operator'',
                    rec_kind = rec_add_operator,
                    rec_description =
                      ''Add operator to '' @ station_name station
                      @ '' to reduce workload and improve consistency'',
                    expectedImprovement = Math_round (js_mul (confidence cause) (Num 20)),
                    implementationCost = cost_medium,
                    timeToImplement = ''2-4 weeks'',
                    priority = p\<rparr>,
                   \<lparr>rec_id = ''rec-'' @ station_id station @ ''-training'',
                    rec_kind = rec_training,
                    rec_description = ''Standardize work procedures at '' @ station_name station,
                    expectedImprovement = Math_round (js_mul (confidence cause) (Num 10)),
                    implementationCost = cost_low,
                    timeToImplement = ''1 week'',
                    priority = p + 1\<rparr>],
           p + 2)
      | cause_equipment \<Rightarrow>
          (recs @ [\<lparr>rec_id = ''rec-'' @ station_id station @ ''-equipment'',
                    rec_kind = rec_equipment,
                    rec_description = ''Upgrade or maintain equipment at '' @ station_name station,
                    expectedImprovement = Math_round (js_mul (confidence cause) (Num 25)),
                    implementationCost = cost_high,
                    timeToImplement = ''4-8 weeks'',
                    priority = p\<rparr>,
                   \<lparr>rec_id = ''rec-'' @ station_id station @ ''-maintenance'',
                    rec_kind = rec_maintenance,
                    rec_description =
                      ''Implement predictive maintenance schedule for '' @ station_name station,
                    expectedImprovement = Math_round (js_mul (confidence cause) (Num 12)),
                    implementationCost = cost_medium,
                    timeToImplement = ''2 weeks'',
                    priority = p + 1\<rparr>],
           p + 2)
      | cause_material \<Rightarrow> (recs, p)
      | cause_process \<Rightarrow> (recs, p))"

definition generateRecommendations ::
  "StationData \<Rightarrow> RootCause list \<Rightarrow> jsnum \<Rightarrow> Recommendation list" where
  "generateRecommendations station causes score =
     (let (recs, p) = foldl (pushRecommendations station) ([], 1) causes
      in if js_gt score (Num 50) then
           recs @ [\<lparr>rec_id = ''rec-'' @ station_id station @ ''-rebalance'',
                     rec_kind = rec_rebalance,
                     rec_description =
                       ''Consider redistributing work from '' @ station_name station
                       @ '' to adjacent stations'',
                     expectedImprovement = Num 15,
                     implementationCost = cost_medium,
                     timeToImplement = ''2-3 weeks'',
                     priority = p\<rparr>]
         else recs)"

text \<open>
  The analysis pushed for a station that is not skipped: \<open>a\<close> is its truthy
  \<^verbatim>\<open>avg_cycle_time\<close> and \<open>causes\<close> the result of \<^verbatim>\<open>analyzeRootCauses\<close>.
\<close>

definition analysis :: "StationData list \<Rightarrow> StationData \<Rightarrow> jsnum \<Rightarrow> RootCause list \<Rightarrow> BottleneckAnalysis" where
  "analysis stationData station a causes =
     (let v = or_zero (variance_percent station);
          score = calculateImpactScore station stationData
      in \<lparr>stationId = station_id station,
          stationName = station_name station,
          severity = getSeverity v,
          b_avgCycleTime = a,
          b_targetCycleTime = target_cycle_time station,
          variancePercent = v,
          frequency = Math_floor (js_div score (Num 10)),
          impactScore = score,
          rootCauses = causes,
          recommendations = generateRecommendations station causes score\<rparr>)"

text \<open>
  The loop of \<^verbatim>\<open>analyzeBottlenecks\<close> over the stations still to visit, with the
  analyses pushed so far. A station with a falsy \<^verbatim>\<open>avg_cycle_time\<close> is passed over
  (\<^verbatim>\<open>continue\<close>); an exception of \<^verbatim>\<open>analyzeRootCauses\<close> ends the call.
\<close>

fun analyzeLoop ::
  "StationData list \<Rightarrow> ShiftData list \<Rightarrow> StationData list \<Rightarrow> BottleneckAnalysis list
     \<Rightarrow> error + BottleneckAnalysis list" where
  "analyzeLoop stationData shiftData [] analyses = Inr analyses"
| "analyzeLoop stationData shiftData (station # rest) analyses =
     (case avg_cycle_time station of
        None \<Rightarrow> analyzeLoop stationData shiftData rest analyses
      | Some a \<Rightarrow>
          if \<not> truthy a then analyzeLoop stationData shiftData rest analyses
          else
            (case analyzeRootCauses station shiftData of
               Inl e \<Rightarrow> Inl e
             | Inr causes \<Rightarrow>
                 analyzeLoop stationData shiftData rest
                   (analyses @ [analysis stationData station a causes])))"

definition analyzeBottlenecks ::
  "StationData list \<Rightarrow> ShiftData list \<Rightarrow> error + BottleneckAnalysis list" where
  "analyzeBottlenecks stationData shiftData =
     (case analyzeLoop stationData shiftData stationData [] of
        Inl e \<Rightarrow> Inl e
      | Inr analyses \<Rightarrow>
          Inr (js_sort (\<lambda>a b. js_sub (impactScore b) (impactScore a)) analyses))"

section \<open>Concrete inputs\<close>

text \<open>Inputs on which the theorems below run the engine.\<close>

definition empty_line_result :: SimulationResult where
  "empty_line_result =
     \<lparr>throughputPerHour = PosInf, avgCycleTime = NaN, lineEfficiency = NaN,
      bottleneckStation = None, waitTimeTotal = Num 0, utilizationByStation = Map.empty\<rparr>"

definition line3 :: "SimStation list" where
  "line3 =
     [\<lparr>s_id = ''ST001'', s_name = ''Cutting'', s_targetCycleTime = Num 60,
       s_avgCycleTime = Num 50, s_operatorCount = Num 1\<rparr>,
      \<lparr>s_id = ''ST002'', s_name = ''Welding'', s_targetCycleTime = Num 60,
       s_avgCycleTime = Num 80, s_operatorCount = Num 2\<rparr>,
      \<lparr>s_id = ''ST003'', s_name = ''Painting'', s_targetCycleTime = Num 60,
       s_avgCycleTime = Num 80, s_operatorCount = Num 1\<rparr>]"

definition welder :: SimStation where
  "welder =
     \<lparr>s_id = ''ST002'', s_name = ''Welding'', s_targetCycleTime = Num 90,
      s_avgCycleTime = Num 100, s_operatorCount = Num 3\<rparr>"

definition two_adds :: "SimulationChange list" where
  "two_adds =
     [\<lparr>c_type = add_operator, c_stationId = ''ST002'', c_value = Num 2,
       c_description = ''Add 2 operators to Welding''\<rparr>,
      \<lparr>c_type = add_operator, c_stationId = ''ST002'', c_value = Num (- 1),
       c_description = ''Remove 1 operator from Welding''\<rparr>]"

definition solo_station :: SimStation where
  "solo_station =
     \<lparr>s_id = ''ST001'', s_name = ''Cutting'', s_targetCycleTime = Num 60,
      s_avgCycleTime = Num 50, s_operatorCount = Num 1\<rparr>"

definition minus_one :: SimulationChange where
  "minus_one =
     \<lparr>c_type = add_operator, c_stationId = ''ST001'', c_value = Num (- 1),
      c_description = ''Remove 1 operator from Cutting''\<rparr>"

definition mixed_changes :: "SimulationChange list" where
  "mixed_changes =
     [\<lparr>c_type = add_operator, c_stationId = ''ST002'', c_value = Num 2,
       c_description = ''Add 2 operators to Welding''\<rparr>,
      minus_one,
      \<lparr>c_type = add_operator, c_stationId = ''ST002'', c_value = Num (- 1),
       c_description = ''Remove 1 operator from Welding''\<rparr>]"

definition ahead_of_target :: StationData where
  "ahead_of_target =
     \<lparr>station_id = ''ST010'', station_name = ''Packing'', target_cycle_time = Num 100,
      avg_cycle_time = Some (Num 50), stddev_cycle_time = Some (Num 0), sample_count = Num 10,
      total_downtime = Some (Num 0), variance_percent = Some (Num (- 50))\<rparr>"

definition slow_and_down :: StationData where
  "slow_and_down =
     \<lparr>station_id = ''ST001'', station_name = ''Cutting'', target_cycle_time = Num 100,
      avg_cycle_time = Some (Num 120), stddev_cycle_time = Some (Num 0), sample_count = Num 10,
      total_downtime = Some (Num 90), variance_percent = Some (Num 20)\<rparr>"

definition unnumbered :: StationData where
  "unnumbered =
     \<lparr>station_id = ''WELD'', station_name = ''Welding'', target_cycle_time = Num 100,
      avg_cycle_time = Some (Num 100), stddev_cycle_time = Some (Num 0), sample_count = Num 10,
      total_downtime = Some (Num 0), variance_percent = Some (Num 0)\<rparr>"

definition zero_target :: StationData where
  "zero_target =
     \<lparr>station_id = ''ST001'', station_name = ''Cutting'', target_cycle_time = Num 0,
      avg_cycle_time = Some (Num 100), stddev_cycle_time = Some (Num 0), sample_count = Num 10,
      total_downtime = Some (Num 0), variance_percent = None\<rparr>"

definition idle :: StationData where
  "idle =
     \<lparr>station_id = ''ST004'', station_name = ''Inspection'', target_cycle_time = Num 45,
      avg_cycle_time = Some (Num 0), stddev_cycle_time = Some (Num 0), sample_count = Num 3,
      total_downtime = Some (Num 0), variance_percent = Some (Num (- 100))\<rparr>"

definition two_shifts :: "ShiftData list" where
  "two_shifts =
     [\<lparr>shift = ''day'', sh_station_id = ''ST001'', sh_avg_cycle_time = Num 100,
       sh_sample_count = Num 5\<rparr>,
      \<lparr>shift = ''night'', sh_station_id = ''ST001'', sh_avg_cycle_time = Num 110,
       sh_sample_count = Num 5\<rparr>]"

section \<open>The simulator: properties\<close>

subsection \<open>The order of numbers\<close>

lemma js_gt_trans: "js_gt a b \<Longrightarrow> js_gt b c \<Longrightarrow> js_gt a c"
  by (cases a; cases b; cases c) (auto simp: js_gt_def)

lemma js_gt_le_trans: "js_gt a b \<Longrightarrow> \<not> js_gt c b \<Longrightarrow> c \<noteq> NaN \<Longrightarrow> js_gt a c"
  by (cases a; cases b; cases c) (auto simp: js_gt_def)

lemma js_gt_irrefl: "\<not> js_gt a a"
  by (cases a) (auto simp: js_gt_def)

lemma js_gt_asym: "js_gt a b \<Longrightarrow> \<not> js_gt b a"
  by (cases a; cases b) (auto simp: js_gt_def)

subsection \<open>An empty line\<close>

lemma calculateLineMetrics_Nil: "calculateLineMetrics [] = empty_line_result"
  by (simp add: calculateLineMetrics_def empty_line_result_def signed_inf_def)

text \<open>
  Claim C5, as stated, fails. With no station \<^verbatim>\<open>runSimulation\<close> does not throw and the
  bottleneck is null, but nothing guards the divisions by \<^verbatim>\<open>maxCycleTime = 0\<close> and by
  \<^verbatim>\<open>stations.length = 0\<close>: the throughput is \<open>Infinity\<close>, and the average cycle time
  and the line efficiency are NaN.
\<close>

theorem empty_line_unguarded:
  "throughputPerHour (fst (runSimulation \<lparr>stations = [], changes = []\<rparr>)) = PosInf
   \<and> avgCycleTime (fst (runSimulation \<lparr>stations = [], changes = []\<rparr>)) = NaN
   \<and> lineEfficiency (snd (runSimulation \<lparr>stations = [], changes = []\<rparr>)) = NaN"
  by (simp add: runSimulation_def modifiedStations_def calculateLineMetrics_Nil
      empty_line_result_def)

text \<open>
  Claim C5, amended. For an empty station list and any change list, \<^verbatim>\<open>runSimulation\<close>
  returns (it cannot throw), and baseline and projected are the same result: bottleneck
  null, total wait time \<open>0\<close>, no utilization entry, throughput \<open>Infinity\<close>, average
  cycle time NaN and line efficiency NaN.
\<close>

theorem runSimulation_empty_line:
  "runSimulation \<lparr>stations = [], changes = cs\<rparr> = (empty_line_result, empty_line_result)"
  by (simp add: runSimulation_def modifiedStations_def calculateLineMetrics_Nil)

subsection \<open>The bottleneck\<close>

text \<open>
  The search loop either keeps its starting pair, when no station is above the starting
  maximum, or ends on the first station whose average is the greatest of all.
\<close>

lemma findBottleneck_first_max:
  assumes "\<forall>s\<in>set rest. s_avgCycleTime s \<noteq> NaN"
  shows "(findBottleneck rest (b, m) = (b, m) \<and> (\<forall>s\<in>set rest. \<not> js_gt (s_avgCycleTime s) m))
       \<or> (\<exists>i<length rest.
            findBottleneck rest (b, m) = (Some (s_id (rest ! i)), s_avgCycleTime (rest ! i))
            \<and> js_gt (s_avgCycleTime (rest ! i)) m
            \<and> (\<forall>j<length rest. \<not> js_gt (s_avgCycleTime (rest ! j)) (s_avgCycleTime (rest ! i)))
            \<and> (\<forall>j<i. js_gt (s_avgCycleTime (rest ! i)) (s_avgCycleTime (rest ! j))))"
  using assms
proof (induction rest arbitrary: b m)
  case Nil
  then show ?case by simp
next
  case (Cons s rest)
  have nn: "\<forall>s\<in>set rest. s_avgCycleTime s \<noteq> NaN" and sn: "s_avgCycleTime s \<noteq> NaN"
    using Cons.prems by auto
  let ?all = "s # rest"
  show ?case
  proof (cases "js_gt (s_avgCycleTime s) m")
    case True
    let ?b = "Some (s_id s)" and ?m = "s_avgCycleTime s"
    from Cons.IH[OF nn, of ?b ?m] show ?thesis
    proof
      assume h: "findBottleneck rest (?b, ?m) = (?b, ?m)
                 \<and> (\<forall>s\<in>set rest. \<not> js_gt (s_avgCycleTime s) ?m)"
      have top: "\<forall>j<length ?all. \<not> js_gt (s_avgCycleTime (?all ! j)) ?m"
      proof (intro allI impI)
        fix j assume "j < length ?all"
        then show "\<not> js_gt (s_avgCycleTime (?all ! j)) ?m"
          using h by (cases j) (auto simp: js_gt_irrefl)
      qed
      have "0 < length ?all
            \<and> findBottleneck ?all (b, m) = (Some (s_id (?all ! 0)), s_avgCycleTime (?all ! 0))
            \<and> js_gt (s_avgCycleTime (?all ! 0)) m
            \<and> (\<forall>j<length ?all. \<not> js_gt (s_avgCycleTime (?all ! j)) (s_avgCycleTime (?all ! 0)))
            \<and> (\<forall>j<0. js_gt (s_avgCycleTime (?all ! 0)) (s_avgCycleTime (?all ! j)))"
        using True h top by simp
      then show ?thesis by blast
    next
      assume "\<exists>i<length rest.
            findBottleneck rest (?b, ?m) = (Some (s_id (rest ! i)), s_avgCycleTime (rest ! i))
            \<and> js_gt (s_avgCycleTime (rest ! i)) ?m
            \<and> (\<forall>j<length rest. \<not> js_gt (s_avgCycleTime (rest ! j)) (s_avgCycleTime (rest ! i)))
            \<and> (\<forall>j<i. js_gt (s_avgCycleTime (rest ! i)) (s_avgCycleTime (rest ! j)))"
      then obtain i where i: "i < length rest"
        and f: "findBottleneck rest (?b, ?m) = (Some (s_id (rest ! i)), s_avgCycleTime (rest ! i))"
        and g: "js_gt (s_avgCycleTime (rest ! i)) ?m"
        and mx: "\<forall>j<length rest. \<not> js_gt (s_avgCycleTime (rest ! j)) (s_avgCycleTime (rest ! i))"
        and before: "\<forall>j<i. js_gt (s_avgCycleTime (rest ! i)) (s_avgCycleTime (rest ! j))"
        by blast
      let ?x = "s_avgCycleTime (rest ! i)"
      have above: "js_gt ?x m" using g True js_gt_trans by blast
      have top: "\<forall>j<length ?all. \<not> js_gt (s_avgCycleTime (?all ! j)) ?x"
      proof (intro allI impI)
        fix j assume "j < length ?all"
        then show "\<not> js_gt (s_avgCycleTime (?all ! j)) ?x"
          using mx g js_gt_asym by (cases j) auto
      qed
      have first: "\<forall>j<Suc i. js_gt ?x (s_avgCycleTime (?all ! j))"
      proof (intro allI impI)
        fix j assume "j < Suc i"
        then show "js_gt ?x (s_avgCycleTime (?all ! j))"
          using before g by (cases j) auto
      qed
      have "Suc i < length ?all
            \<and> findBottleneck ?all (b, m)
                = (Some (s_id (?all ! Suc i)), s_avgCycleTime (?all ! Suc i))
            \<and> js_gt (s_avgCycleTime (?all ! Suc i)) m
            \<and> (\<forall>j<length ?all.
                  \<not> js_gt (s_avgCycleTime (?all ! j)) (s_avgCycleTime (?all ! Suc i)))
            \<and> (\<forall>j<Suc i. js_gt (s_avgCycleTime (?all ! Suc i)) (s_avgCycleTime (?all ! j)))"
        using i f above top first True by simp
      then show ?thesis by blast
    qed
  next
    case False
    from Cons.IH[OF nn, of b m] show ?thesis
    proof
      assume "findBottleneck rest (b, m) = (b, m)
              \<and> (\<forall>s\<in>set rest. \<not> js_gt (s_avgCycleTime s) m)"
      then show ?thesis using False by simp
    next
      assume "\<exists>i<length rest.
            findBottleneck rest (b, m) = (Some (s_id (rest ! i)), s_avgCycleTime (rest ! i))
            \<and> js_gt (s_avgCycleTime (rest ! i)) m
            \<and> (\<forall>j<length rest. \<not> js_gt (s_avgCycleTime (rest ! j)) (s_avgCycleTime (rest ! i)))
            \<and> (\<forall>j<i. js_gt (s_avgCycleTime (rest ! i)) (s_avgCycleTime (rest ! j)))"
      then obtain i where i: "i < length rest"
        and f: "findBottleneck rest (b, m) = (Some (s_id (rest ! i)), s_avgCycleTime (rest ! i))"
        and g: "js_gt (s_avgCycleTime (rest ! i)) m"
        and mx: "\<forall>j<length rest. \<not> js_gt (s_avgCycleTime (rest ! j)) (s_avgCycleTime (rest ! i))"
        and before: "\<forall>j<i. js_gt (s_avgCycleTime (rest ! i)) (s_avgCycleTime (rest ! j))"
        by blast
      let ?x = "s_avgCycleTime (rest ! i)"
      have sx: "js_gt ?x (s_avgCycleTime s)"
        using g False sn js_gt_le_trans by blast
      have top: "\<forall>j<length ?all. \<not> js_gt (s_avgCycleTime (?all ! j)) ?x"
      proof (intro allI impI)
        fix j assume "j < length ?all"
        then show "\<not> js_gt (s_avgCycleTime (?all ! j)) ?x"
          using mx sx js_gt_asym by (cases j) auto
      qed
      have first: "\<forall>j<Suc i. js_gt ?x (s_avgCycleTime (?all ! j))"
      proof (intro allI impI)
        fix j assume "j < Suc i"
        then show "js_gt ?x (s_avgCycleTime (?all ! j))"
          using before sx by (cases j) auto
      qed
      have "Suc i < length ?all
            \<and> findBottleneck ?all (b, m)
                = (Some (s_id (?all ! Suc i)), s_avgCycleTime (?all ! Suc i))
            \<and> js_gt (s_avgCycleTime (?all ! Suc i)) m
            \<and> (\<forall>j<length ?all.
                  \<not> js_gt (s_avgCycleTime (?all ! j)) (s_avgCycleTime (?all ! Suc i)))
            \<and> (\<forall>j<Suc i. js_gt (s_avgCycleTime (?all ! Suc i)) (s_avgCycleTime (?all ! j)))"
        using i f g top first False by simp
      then show ?thesis by blast
    qed
  qed
qed

text \<open>
  Claim C6. For a non-empty station list whose average cycle times are all positive, the
  bottleneck of \<^verbatim>\<open>calculateLineMetrics\<close> is the id of a station \<open>i\<close> such that no
  station has a greater average cycle time and every station before \<open>i\<close> has a strictly
  smaller one: the first station of greatest average cycle time.
\<close>

theorem bottleneck_first_maximum:
  assumes "sts \<noteq> []" and "\<forall>s\<in>set sts. js_gt (s_avgCycleTime s) (Num 0)"
  shows "\<exists>i<length sts.
           bottleneckStation (calculateLineMetrics sts) = Some (s_id (sts ! i))
         \<and> (\<forall>j<length sts. \<not> js_gt (s_avgCycleTime (sts ! j)) (s_avgCycleTime (sts ! i)))
         \<and> (\<forall>j<i. js_gt (s_avgCycleTime (sts ! i)) (s_avgCycleTime (sts ! j)))"
proof -
  have nn: "\<forall>s\<in>set sts. s_avgCycleTime s \<noteq> NaN"
    using assms(2) by (auto simp: js_gt_def)
  have "js_gt (s_avgCycleTime (hd sts)) (Num 0)"
    using assms by simp
  then have "\<not> (\<forall>s\<in>set sts. \<not> js_gt (s_avgCycleTime s) (Num 0))"
    using assms(1) hd_in_set by blast
  with findBottleneck_first_max[OF nn, of None "Num 0"]
  obtain i where i: "i < length sts"
    and f: "findBottleneck sts (None, Num 0) = (Some (s_id (sts ! i)), s_avgCycleTime (sts ! i))"
    and mx: "\<forall>j<length sts. \<not> js_gt (s_avgCycleTime (sts ! j)) (s_avgCycleTime (sts ! i))"
    and before: "\<forall>j<i. js_gt (s_avgCycleTime (sts ! i)) (s_avgCycleTime (sts ! j))"
    by blast
  have "bottleneckStation (calculateLineMetrics sts) = Some (s_id (sts ! i))"
    by (simp add: calculateLineMetrics_def f Let_def split: prod.splits)
  with i mx before show ?thesis by blast
qed

theorem bottleneck_first_maximum_witness:
  "line3 \<noteq> [] \<and> list_all (\<lambda>s. js_gt (s_avgCycleTime s) (Num 0)) line3
   \<and> bottleneckStation (calculateLineMetrics line3) = Some ''ST002''
   \<and> (\<exists>i<length line3.
         bottleneckStation (calculateLineMetrics line3) = Some (s_id (line3 ! i))
       \<and> (\<forall>j<length line3. \<not> js_gt (s_avgCycleTime (line3 ! j)) (s_avgCycleTime (line3 ! i)))
       \<and> (\<forall>j<i. js_gt (s_avgCycleTime (line3 ! i)) (s_avgCycleTime (line3 ! j))))"
proof -
  have h1: "line3 \<noteq> []" by (simp add: line3_def)
  have h2: "\<forall>s\<in>set line3. js_gt (s_avgCycleTime s) (Num 0)"
    by (simp add: line3_def js_gt_def)
  have h3: "bottleneckStation (calculateLineMetrics line3) = Some ''ST002''"
    by (simp add: calculateLineMetrics_def line3_def js_gt_def Let_def split: prod.splits)
  show ?thesis
    using h1 h2 h3 bottleneck_first_maximum[OF h1 h2] by (simp add: list_all_iff)
qed

subsection \<open>Applying changes\<close>

lemma modifyStation_no_changes: "modifyStation [] station = station"
  by (simp add: modifyStation_def stationChanges_def)

text \<open>
  Claim C8. For every station list, \<^verbatim>\<open>runSimulation\<close> with an empty change list
  returns a baseline and a projected result that are equal in every field (a field that
  is NaN is NaN in both).
\<close>

theorem runSimulation_no_changes:
  "fst (runSimulation \<lparr>stations = sts, changes = []\<rparr>)
   = snd (runSimulation \<lparr>stations = sts, changes = []\<rparr>)"
  by (simp add: runSimulation_def modifiedStations_def modifyStation_no_changes map_idI)

lemma add_operator_counts:
  assumes "\<forall>c\<in>set cs. c_type c = add_operator"
  shows "s_operatorCount (foldl (applyChange station) modified cs)
         = foldl js_add (s_operatorCount modified) (map c_value cs)"
  using assms by (induction cs arbitrary: modified) (simp_all add: Let_def)

text \<open>
  Claim C7. Take any change list in which the changes for station \<open>st\<close> are
  \<^verbatim>\<open>add_operator\<close> changes, at least one. After \<^verbatim>\<open>runSimulation\<close> has applied
  them, the operator count of the modified copy is the original count with every value
  added in list order, and its average cycle time is the average of the unmodified
  station times \<open>1 - 0.15 * n * (1 / sqrt count)\<close>, where \<open>n\<close> is the value of the last
  such change and \<open>count\<close> the final operator count: the earlier changes reach the
  result through the operator count only, and their factors do not multiply up.
\<close>

theorem add_operator_from_baseline:
  assumes "stationChanges cs st \<noteq> []"
    and "\<forall>c\<in>set (stationChanges cs st). c_type c = add_operator"
  shows "s_operatorCount (modifyStation cs st)
           = foldl js_add (s_operatorCount st) (map c_value (stationChanges cs st))
       \<and> s_avgCycleTime (modifyStation cs st)
           = js_mul (s_avgCycleTime st)
               (js_sub (Num 1)
                  (js_mul (js_mul (Num (15 / 100)) (c_value (last (stationChanges cs st))))
                     (js_div (Num 1)
                        (Math_sqrt
                           (foldl js_add (s_operatorCount st)
                              (map c_value (stationChanges cs st)))))))"
proof -
  define ts where "ts = stationChanges cs st"
  have run: "modifyStation cs st = foldl (applyChange st) st ts"
    by (simp add: modifyStation_def ts_def)
  have ty: "\<forall>c\<in>set ts. c_type c = add_operator"
    using assms(2) by (simp add: ts_def)
  have cnt: "s_operatorCount (modifyStation cs st)
             = foldl js_add (s_operatorCount st) (map c_value ts)"
    by (simp add: run add_operator_counts[OF ty])
  obtain ds d where sn: "ts = ds @ [d]"
    using assms(1) unfolding ts_def[symmetric] by (cases ts rule: rev_cases) auto
  have dty: "c_type d = add_operator" using ty sn by simp
  have dsty: "\<forall>c\<in>set ds. c_type c = add_operator" using ty sn by simp
  have "s_avgCycleTime (modifyStation cs st)
        = js_mul (s_avgCycleTime st)
            (improvement (c_value d)
               (js_add (s_operatorCount (foldl (applyChange st) st ds)) (c_value d)))"
    using dty by (simp add: run sn Let_def)
  also have "js_add (s_operatorCount (foldl (applyChange st) st ds)) (c_value d)
             = foldl js_add (s_operatorCount st) (map c_value ts)"
    by (simp add: sn add_operator_counts[OF dsty])
  finally have "s_avgCycleTime (modifyStation cs st)
        = js_mul (s_avgCycleTime st)
            (improvement (c_value (last ts)) (foldl js_add (s_operatorCount st) (map c_value ts)))"
    by (simp add: sn)
  with cnt show ?thesis by (simp add: improvement_def ts_def)
qed

theorem add_operator_from_baseline_witness:
  "stationChanges mixed_changes welder = two_adds
   \<and> list_all (\<lambda>c. c_type c = add_operator) (stationChanges mixed_changes welder)
   \<and> s_operatorCount (modifyStation mixed_changes welder) = Num 4
   \<and> s_avgCycleTime (modifyStation mixed_changes welder) = Num (215 / 2)"
proof -
  have h0: "stationChanges mixed_changes welder = two_adds"
    by (simp add: stationChanges_def mixed_changes_def two_adds_def welder_def minus_one_def)
  have h1: "stationChanges mixed_changes welder \<noteq> []"
    by (simp add: h0 two_adds_def)
  have h2: "\<forall>c\<in>set (stationChanges mixed_changes welder). c_type c = add_operator"
    by (simp add: h0 two_adds_def)
  have "s_operatorCount (modifyStation mixed_changes welder) = Num 4
        \<and> s_avgCycleTime (modifyStation mixed_changes welder) = Num (215 / 2)"
    using add_operator_from_baseline[OF h1 h2] unfolding h0
    by (simp add: two_adds_def welder_def js_sub_def)
  with h0 h2 show ?thesis by (simp add: list_all_iff)
qed

text \<open>
  Claim C9 fails on the code. \<^verbatim>\<open>remove_operator\<close> keeps the operator count at \<open>1\<close> or
  more with \<^verbatim>\<open>Math.max(1, ...)\<close>; \<^verbatim>\<open>add_operator\<close> adds its value with no such
  bound. A station with one operator and one \<^verbatim>\<open>add_operator\<close> change of value \<open>-1\<close>
  (what the minus button of the simulation panel sends) ends with operator count \<open>0\<close>,
  and with an infinite average cycle time.
\<close>

theorem add_operator_count_unclamped:
  "map (\<lambda>s. (s_operatorCount s, s_avgCycleTime s))
     (modifiedStations \<lparr>stations = [solo_station], changes = [minus_one]\<rparr>)
   = [(Num 0, PosInf)]"
  by (simp add: modifiedStations_def modifyStation_def stationChanges_def solo_station_def
      minus_one_def improvement_def js_sub_def signed_inf_def)

section \<open>The analyzer: properties\<close>

subsection \<open>Runs on concrete stations\<close>

text \<open>
  Claim C1 fails on the code. The variance sub-score \<^verbatim>\<open>Math.min(40, v * 2)\<close> is
  bounded above only, where the position sub-score is bounded below by
  \<^verbatim>\<open>Math.max(0, ...)\<close>. A station that runs 50 percent under its target
  (\<^verbatim>\<open>variance_percent = -50\<close>) gets the impact score \<open>-100\<close>, outside the range
  \<open>0..100\<close> that the type \<^verbatim>\<open>BottleneckAnalysis\<close> documents.
\<close>

theorem impactScore_below_zero:
  "map_sum id (map impactScore) (analyzeBottlenecks [ahead_of_target] []) = Inr [Num (- 100)]"
  by (simp add: analyzeBottlenecks_def analysis_def calculateImpactScore_def ahead_of_target_def
      parseInt_def StrWhiteSpaceChar_def digit_def analyzeRootCauses_def shiftPattern_def
      coefficientOfVariation_def Math_min_def Math_max_def js_gt_def js_sub_def js_sort_def
      Let_def)

text \<open>
  Claim C2 fails on the code. A station that is consistently slow
  (\<^verbatim>\<open>variance_percent = 20\<close>, no spread) and has 90 minutes of downtime gets two
  \<^verbatim>\<open>equipment\<close> causes, and each of them pushes a recommendation with the id
  \<^verbatim>\<open>rec-ST001-equipment\<close> and one with the id \<^verbatim>\<open>rec-ST001-maintenance\<close>: the ids of
  the finding are not distinct.
\<close>

theorem duplicate_recommendation_ids:
  "map_sum id (map (\<lambda>f. map rec_id (recommendations f)))
     (analyzeBottlenecks [slow_and_down] [])
   = Inr [[''rec-ST001-equipment'', ''rec-ST001-maintenance'',
           ''rec-ST001-equipment'', ''rec-ST001-maintenance'', ''rec-ST001-rebalance'']]"
  by (simp add: analyzeBottlenecks_def analysis_def calculateImpactScore_def slow_and_down_def
      parseInt_def StrWhiteSpaceChar_def digit_def analyzeRootCauses_def shiftPattern_def
      generateRecommendations_def coefficientOfVariation_def Math_min_def Math_max_def
      js_gt_def js_sub_def js_sort_def Let_def)

text \<open>
  Claim C4 fails on the code. For the station id \<^verbatim>\<open>WELD\<close>, \<^verbatim>\<open>parseInt\<close> gives NaN,
  \<^verbatim>\<open>Math.max(0, NaN)\<close> is NaN and not \<open>0\<close>, and the impact score of the finding is
  NaN (as is its frequency).
\<close>

theorem impactScore_NaN_without_number:
  "map_sum id (map (\<lambda>f. (impactScore f, frequency f))) (analyzeBottlenecks [unnumbered] [])
   = Inr [(NaN, NaN)]"
  by (simp add: analyzeBottlenecks_def analysis_def calculateImpactScore_def unnumbered_def
      parseInt_def StrWhiteSpaceChar_def digit_def analyzeRootCauses_def shiftPattern_def
      coefficientOfVariation_def Math_min_def Math_max_def js_gt_def js_sub_def js_sort_def
      Let_def)

text \<open>
  Claim C3, as stated, fails. A station with target cycle time \<open>0\<close> and a non-zero
  average is not skipped: the finding is emitted with that target, and with two shift
  rows its shift cause carries \<open>Infinity\<close> as the percentage.
\<close>

theorem zero_target_not_skipped:
  "map_sum id (map (\<lambda>f. (stationId f, b_targetCycleTime f, map rc_description (rootCauses f))))
     (analyzeBottlenecks [zero_target] two_shifts)
   = Inr [(''ST001'', Num 0,
           [[Lit ''night'', Lit '' shift shows '', Val PosInf, Lit ''% higher cycle times'']])]"
  by (simp add: analyzeBottlenecks_def analysis_def calculateImpactScore_def zero_target_def
      two_shifts_def parseInt_def StrWhiteSpaceChar_def digit_def analyzeRootCauses_def
      shiftPattern_def generateRecommendations_def Object_entries_def is_array_index_def
      index_value_def Math_max_list_def Math_min_list_def signed_inf_def
      coefficientOfVariation_def Math_min_def Math_max_def js_gt_def js_sub_def js_sort_def
      Let_def)

subsection \<open>When the analyzer returns\<close>

text \<open>
  The only exception of \<^verbatim>\<open>analyzeBottlenecks\<close> is the read of \<^verbatim>\<open>worstShift[0]\<close> on
  an empty list of entries, which takes shift rows that create no property. With no
  shift label \<^verbatim>\<open>__proto__\<close> the dictionary of a station with two shift rows
  is not empty, and the call returns.
\<close>

lemma obj_set_nonempty: "k \<noteq> ''__proto__'' \<or> obj \<noteq> [] \<Longrightarrow> obj_set obj k v \<noteq> []"
  by (cases obj) (auto split: if_splits)

lemma avgByShift_nonempty:
  assumes "\<forall>s\<in>set xs. shift s \<noteq> ''__proto__''" and "acc \<noteq> [] \<or> xs \<noteq> []"
  shows "foldl (\<lambda>acc s. obj_set acc (shift s) (sh_avg_cycle_time s)) acc xs \<noteq> []"
  using assms
proof (induction xs arbitrary: acc)
  case Nil
  then show ?case by simp
next
  case (Cons x xs)
  have "obj_set acc (shift x) (sh_avg_cycle_time x) \<noteq> []"
    using Cons.prems(1) by (simp add: obj_set_nonempty)
  with Cons show ?case by simp
qed

lemma length_Object_entries: "length (Object_entries obj) = length obj"
  by (simp add: Object_entries_def sum_length_filter_compl)

lemma Object_entries_nonempty: "obj \<noteq> [] \<Longrightarrow> Object_entries obj \<noteq> []"
  using length_Object_entries[of obj] by (cases "Object_entries obj") auto

lemma mset_insert_by: "mset (insert_by cmp x ys) = add_mset x (mset ys)"
  by (induction ys) simp_all

lemma mset_js_sort: "mset (js_sort cmp xs) = mset xs"
  by (induction xs) (simp_all add: js_sort_def mset_insert_by)

lemma js_sort_nonempty: "xs \<noteq> [] \<Longrightarrow> js_sort cmp xs \<noteq> []"
  using mset_js_sort[of cmp xs] by (metis mset_zero_iff)

lemma worstShift_exists:
  assumes "\<forall>sh\<in>set ss. shift sh \<noteq> ''__proto__''" and "1 < length ss"
  shows "js_sort cmp
           (Object_entries (foldl (\<lambda>acc s. obj_set acc (shift s) (sh_avg_cycle_time s)) [] ss))
         \<noteq> []"
proof -
  have "ss \<noteq> []" using assms(2) by auto
  then have "foldl (\<lambda>acc s. obj_set acc (shift s) (sh_avg_cycle_time s)) [] ss \<noteq> []"
    using assms(1) avgByShift_nonempty by blast
  then show ?thesis by (intro js_sort_nonempty Object_entries_nonempty)
qed

lemma shiftPattern_returns:
  assumes "\<forall>sh\<in>set shiftData. shift sh \<noteq> ''__proto__''"
  shows "\<exists>rc. shiftPattern station shiftData = Inr rc"
proof -
  have np: "\<forall>sh\<in>set (filter (\<lambda>s. sh_station_id s = station_id station) shiftData).
              shift sh \<noteq> ''__proto__''"
    using assms by simp
  show ?thesis
    unfolding shiftPattern_def Let_def
    using worstShift_exists[OF np]
    by (simp only: split: if_split list.split) blast
qed

lemma analyzeRootCauses_returns:
  assumes "\<forall>sh\<in>set shiftData. shift sh \<noteq> ''__proto__''"
  shows "\<exists>rc. analyzeRootCauses station shiftData = Inr rc"
proof -
  obtain rc where "shiftPattern station shiftData = Inr rc"
    using shiftPattern_returns[OF assms] by blast
  then show ?thesis by (simp add: analyzeRootCauses_def Let_def)
qed

text \<open>
  The loop appends one analysis for each station with a truthy average, in order, with
  the id and the target of that station.
\<close>

lemma analyzeLoop_returns:
  assumes "\<forall>sh\<in>set shiftData. shift sh \<noteq> ''__proto__''"
  shows "\<exists>new. analyzeLoop stationData shiftData rest analyses = Inr (analyses @ new)
           \<and> map (\<lambda>f. (stationId f, b_targetCycleTime f)) new
             = map (\<lambda>s. (station_id s, target_cycle_time s))
                 (filter (\<lambda>s. truthy_opt (avg_cycle_time s)) rest)"
proof (induction rest arbitrary: analyses)
  case Nil
  then show ?case by simp
next
  case (Cons station rest)
  show ?case
  proof (cases "truthy_opt (avg_cycle_time station)")
    case False
    then have "analyzeLoop stationData shiftData (station # rest) analyses
        = analyzeLoop stationData shiftData rest analyses"
      by (cases "avg_cycle_time station") auto
    with Cons.IH[of analyses] False show ?thesis by simp
  next
    case True
    then obtain a where a: "avg_cycle_time station = Some a" "truthy a"
      by (cases "avg_cycle_time station") auto
    obtain rc where rc: "analyzeRootCauses station shiftData = Inr rc"
      using analyzeRootCauses_returns[OF assms] by blast
    let ?f = "analysis stationData station a rc"
    obtain new
      where new: "analyzeLoop stationData shiftData rest (analyses @ [?f])
                  = Inr ((analyses @ [?f]) @ new)"
        and ids: "map (\<lambda>f. (stationId f, b_targetCycleTime f)) new
                  = map (\<lambda>s. (station_id s, target_cycle_time s))
                      (filter (\<lambda>s. truthy_opt (avg_cycle_time s)) rest)"
      using Cons.IH[of "analyses @ [?f]"] by blast
    have "analyzeLoop stationData shiftData (station # rest) analyses
          = Inr (analyses @ (?f # new))"
      using a rc new by simp
    moreover have "map (\<lambda>f. (stationId f, b_targetCycleTime f)) (?f # new)
             = map (\<lambda>s. (station_id s, target_cycle_time s))
                 (filter (\<lambda>s. truthy_opt (avg_cycle_time s)) (station # rest))"
      using True ids by (simp add: analysis_def Let_def)
    ultimately show ?thesis by blast
  qed
qed

lemma analyzeBottlenecks_findings:
  assumes "\<forall>sh\<in>set shiftData. shift sh \<noteq> ''__proto__''"
  shows "\<exists>analyses. analyzeBottlenecks stationData shiftData = Inr analyses
           \<and> mset (map (\<lambda>f. (stationId f, b_targetCycleTime f)) analyses)
             = mset (map (\<lambda>s. (station_id s, target_cycle_time s))
                 (filter (\<lambda>s. truthy_opt (avg_cycle_time s)) stationData))"
proof -
  obtain new where new: "analyzeLoop stationData shiftData stationData [] = Inr new"
    and ids: "map (\<lambda>f. (stationId f, b_targetCycleTime f)) new
             = map (\<lambda>s. (station_id s, target_cycle_time s))
                 (filter (\<lambda>s. truthy_opt (avg_cycle_time s)) stationData)"
    using analyzeLoop_returns[OF assms, of stationData stationData "[]"] by auto
  let ?sorted = "js_sort (\<lambda>a b. js_sub (impactScore b) (impactScore a)) new"
  have "analyzeBottlenecks stationData shiftData = Inr ?sorted"
    by (simp add: analyzeBottlenecks_def new)
  moreover have "mset (map (\<lambda>f. (stationId f, b_targetCycleTime f)) ?sorted)
      = mset (map (\<lambda>f. (stationId f, b_targetCycleTime f)) new)"
    using mset_js_sort[of _ new] by (metis mset_map)
  ultimately show ?thesis using ids by auto
qed

text \<open>
  Claim C3, amended. \<^verbatim>\<open>analyzeBottlenecks\<close> skips a station exactly when its
  \<^verbatim>\<open>avg_cycle_time\<close> is falsy (null, \<open>0\<close> or NaN); the target cycle time has no part
  in the test. For shift rows with no label \<^verbatim>\<open>__proto__\<close> the call returns, and its
  findings are, up to their order, one for each station of truthy average, each with the
  id and the target cycle time of its station, be that target positive or not.
\<close>

theorem findings_follow_avg_only:
  assumes "\<forall>sh\<in>set shiftData. shift sh \<noteq> ''__proto__''"
  shows "\<exists>analyses. analyzeBottlenecks stationData shiftData = Inr analyses
           \<and> mset (map (\<lambda>f. (stationId f, b_targetCycleTime f)) analyses)
             = mset (map (\<lambda>s. (station_id s, target_cycle_time s))
                 (filter (\<lambda>s. truthy_opt (avg_cycle_time s)) stationData))"
  using assms by (rule analyzeBottlenecks_findings)

theorem findings_follow_avg_only_witness:
  "list_all (\<lambda>sh. shift sh \<noteq> ''__proto__'') two_shifts
   \<and> (\<exists>analyses. analyzeBottlenecks [zero_target, ahead_of_target] two_shifts = Inr analyses
        \<and> mset (map (\<lambda>f. (stationId f, b_targetCycleTime f)) analyses)
          = {#(''ST001'', Num 0), (''ST010'', Num 100)#})"
proof -
  have h: "\<forall>sh\<in>set two_shifts. shift sh \<noteq> ''__proto__''"
    by (simp add: two_shifts_def)
  show ?thesis
    using h findings_follow_avg_only[OF h, of "[zero_target, ahead_of_target]"]
    by (simp add: list_all_iff zero_target_def ahead_of_target_def)
qed

text \<open>
  Claim C10. A station whose \<^verbatim>\<open>avg_cycle_time\<close> is exactly \<open>0\<close> is passed over by the
  loop of \<^verbatim>\<open>analyzeBottlenecks\<close> as a null one is, since the test is the falsiness of
  the field: the loop goes on with the analyses it had, and (for shift rows with no label
  \<^verbatim>\<open>__proto__\<close>, when the call returns) the findings are those of the other
  stations of truthy average.
\<close>

theorem zero_avg_skipped:
  assumes "avg_cycle_time s = Some (Num 0)"
    and "\<forall>sh\<in>set shiftData. shift sh \<noteq> ''__proto__''"
  shows "analyzeLoop stationData shiftData (s # rest) analyses
           = analyzeLoop stationData shiftData rest analyses
       \<and> (\<exists>found. analyzeBottlenecks (xs @ s # ys) shiftData = Inr found
            \<and> mset (map stationId found)
              = mset (map station_id (filter (\<lambda>s. truthy_opt (avg_cycle_time s)) (xs @ ys))))"
proof -
  have skip: "analyzeLoop stationData shiftData (s # rest) analyses
              = analyzeLoop stationData shiftData rest analyses"
    using assms(1) by simp
  obtain found where ret: "analyzeBottlenecks (xs @ s # ys) shiftData = Inr found"
    and m: "mset (map (\<lambda>f. (stationId f, b_targetCycleTime f)) found)
            = mset (map (\<lambda>s. (station_id s, target_cycle_time s))
                (filter (\<lambda>s. truthy_opt (avg_cycle_time s)) (xs @ s # ys)))"
    using analyzeBottlenecks_findings[OF assms(2), of "xs @ s # ys"] by blast
  have "image_mset fst (mset (map (\<lambda>f. (stationId f, b_targetCycleTime f)) found))
        = image_mset fst (mset (map (\<lambda>s. (station_id s, target_cycle_time s))
            (filter (\<lambda>s. truthy_opt (avg_cycle_time s)) (xs @ s # ys))))"
    using m by simp
  then have "mset (map stationId found)
        = mset (map station_id (filter (\<lambda>s. truthy_opt (avg_cycle_time s)) (xs @ s # ys)))"
    by (simp add: multiset.map_comp comp_def)
  then have "mset (map stationId found)
        = mset (map station_id (filter (\<lambda>s. truthy_opt (avg_cycle_time s)) (xs @ ys)))"
    using assms(1) by simp
  with skip ret show ?thesis by blast
qed

theorem zero_avg_skipped_witness:
  "avg_cycle_time idle = Some (Num 0)
   \<and> list_all (\<lambda>sh. shift sh \<noteq> ''__proto__'') two_shifts
   \<and> analyzeLoop [slow_and_down, idle] two_shifts [idle] [] = Inr []
   \<and> (\<exists>found. analyzeBottlenecks [slow_and_down, idle] two_shifts = Inr found
        \<and> mset (map stationId found) = {#''ST001''#})"
proof -
  have h1: "avg_cycle_time idle = Some (Num 0)" by (simp add: idle_def)
  have h2: "\<forall>sh\<in>set two_shifts. shift sh \<noteq> ''__proto__''"
    by (simp add: two_shifts_def)
  have "analyzeLoop [slow_and_down, idle] two_shifts [idle] [] = Inr []"
    using zero_avg_skipped[OF h1 h2, of "[slow_and_down, idle]" "[]" "[]" "[slow_and_down]" "[]"]
    by simp
  moreover have "\<exists>found. analyzeBottlenecks [slow_and_down, idle] two_shifts = Inr found
        \<and> mset (map stationId found) = {#''ST001''#}"
    using zero_avg_skipped[OF h1 h2, of "[slow_and_down, idle]" "[]" "[]" "[slow_and_down]" "[]"]
    by (simp add: slow_and_down_def)
  ultimately show ?thesis using h1 h2 by (simp add: list_all_iff)
qed

end
